theory Spec2Isabelle
  imports Complex_Main
begin

section \<open>Shared data: platform, theme, styles, children\<close>

text \<open>
  The components are React classes and functions. A render method is modelled as a
  function from the props (and, where it reads it, the instance state) to a record of
  what it renders; a lifecycle method or handler is a function on an explicit instance
  state that also holds the effects it has on the host (listeners, timers, animations).
  A JavaScript number (a layout coordinate, a roundness) is modelled by the real it
  denotes; where the code computes with numbers, in the placement of the Menu, the
  rounding of every floating-point operation is written out. A function passed as a
  prop is modelled by its identity, a \<open>callback\<close>; calling it is recorded as a value.
\<close>

type_synonym callback = string

datatype os = Android | IOS | OtherOS

record platform =
  pf_os :: os
  pf_version :: nat

record theme_colors =
  c_text :: string
  c_accent :: string
  c_disabled :: string
  c_placeholder :: string
  c_primary :: string

record theme =
  th_colors :: theme_colors
  th_roundness :: real
  th_dark :: bool

text \<open>
  The \<open>color\<close> package is an external library: \<open>color(c).fade(a).rgb().string()\<close> and
  its relatives are taken as one parameter \<open>col\<close> from the operation and the input
  colour to the output string.
\<close>

datatype color_op = FadeRgb real | ClearerRgba real | AlphaRgb real | AlphaRgba real

type_synonym colorlib = "color_op \<Rightarrow> string \<Rightarrow> string"

text \<open>
  A style object is a list of key/value pairs; a \<open>style\<close> prop or attribute is an array
  of style objects (an absent or empty style is the empty array, a nested array is its
  concatenation). The host resolves an array from left to right, a later object
  overriding an earlier one key by key: \<open>styleValue\<close>.
\<close>

datatype sval = SNum real | SStr string | SAnimated string

type_synonym style = "(string \<times> sval) list"

definition styleValue :: "style list \<Rightarrow> string \<Rightarrow> sval option" where
  "styleValue ss k = map_of (rev (concat ss)) k"

text \<open>
  A \<open>children\<close> value is an element, a text (a string or a number), \<open>Null\<close> (\<open>null\<close>
  or \<open>undefined\<close>), a boolean, or an array of such values. \<open>React.Children.only\<close>
  returns its argument when it is a single element and throws otherwise.
  \<open>React.Children.map\<close> and \<open>React.Children.count\<close> walk the leaves of the value in
  order; a leaf that is \<open>null\<close>, \<open>undefined\<close> or a boolean counts as a leaf and is
  handed to the callback as \<open>null\<close>. Only on a value that is itself \<open>null\<close> or
  \<open>undefined\<close> there is nothing to walk; a value that is itself a boolean is one leaf.
\<close>

datatype 'e node = Elem 'e | Text string | Null | Boolean bool | Arr "'e node list"

datatype error = OnlyChildError | TypeError | NotAnElement

fun leaves :: "'e node \<Rightarrow> 'e node list" where
  "leaves (Arr ns) = concat (map leaves ns)"
| "leaves (Boolean b) = [Null]"
| "leaves n = [n]"

definition Children_toList :: "'e node \<Rightarrow> 'e node list" where
  "Children_toList c = (if c = Null then [] else leaves c)"

definition Children_count :: "'e node \<Rightarrow> nat" where
  "Children_count c = length (Children_toList c)"

fun Children_only :: "'e node \<Rightarrow> error + 'e" where
  "Children_only (Elem e) = Inr e"
| "Children_only _ = Inl OnlyChildError"

section \<open>TouchableRipple\<close>

text \<open>
  The props of TouchableRipple after its \<open>defaultProps\<close> (\<open>borderless\<close>, \<open>rippleColor\<close>)
  are filled in. \<open>rest\<close> in \<open>render\<close> is what remains after the destructuring; of the
  declared props that is \<open>onPress\<close>, which therefore reaches the touchable.
\<close>

record 'e ripple_props =
  rp_borderless :: bool
  rp_background :: "string option"
  rp_disabled :: "bool option"
  rp_onPress :: "callback option"
  rp_rippleColor :: string
  rp_underlayColor :: "string option"
  rp_children :: "'e node"
  rp_style :: "style list"

definition ANDROID_VERSION_LOLLIPOP :: nat where
  "ANDROID_VERSION_LOLLIPOP = 21"

datatype background = GivenBackground string | Ripple string bool

datatype touchable_kind = TouchableNativeFeedback background | TouchableHighlight string

text \<open>
  What \<open>render\<close> returns: the touchable primitive with the props it is given. On the
  native-feedback branch the style goes to the View wrapped around the child, on the
  highlight branch to the touchable itself; \<open>t_styleOnView\<close> tells which.
\<close>

record 'e touchable =
  t_kind :: touchable_kind
  t_onPress :: "callback option"
  t_disabled :: bool
  t_style :: "style list"
  t_styleOnView :: bool
  t_child :: 'e

definition TouchableRipple_render ::
  "platform \<Rightarrow> colorlib \<Rightarrow> 'e ripple_props \<Rightarrow> error + 'e touchable" where
  "TouchableRipple_render pf col p =
    (let disabled = (if rp_disabled p = Some True then True else rp_onPress p = None) in
     if pf_os pf = Android \<and> pf_version pf \<ge> ANDROID_VERSION_LOLLIPOP then
       (case Children_only (rp_children p) of
          Inl e \<Rightarrow> Inl e
        | Inr child \<Rightarrow> Inr \<lparr>
            t_kind = TouchableNativeFeedback
              (case rp_background p of
                 Some b \<Rightarrow> GivenBackground b
               | None \<Rightarrow> Ripple (rp_rippleColor p) (rp_borderless p)),
            t_onPress = rp_onPress p,
            t_disabled = disabled,
            t_style = rp_style p,
            t_styleOnView = True,
            t_child = child \<rparr>)
     else
       (case Children_only (rp_children p) of
          Inl e \<Rightarrow> Inl e
        | Inr child \<Rightarrow> Inr \<lparr>
            t_kind = TouchableHighlight
              (case rp_underlayColor p of
                 Some u \<Rightarrow> u
               | None \<Rightarrow> col (FadeRgb (1/2)) (rp_rippleColor p)),
            t_onPress = rp_onPress p,
            t_disabled = disabled,
            t_style = rp_style p,
            t_styleOnView = False,
            t_child = child \<rparr>))"

text \<open>
  The host's touchable calls \<open>onPress\<close> on a press unless it is disabled or has no
  \<open>onPress\<close>. The result is the list of callbacks called.
\<close>

definition press :: "'e touchable \<Rightarrow> callback list" where
  "press t = (if t_disabled t then [] else case t_onPress t of None \<Rightarrow> [] | Some f \<Rightarrow> [f])"

section \<open>Checkbox, RadioButton, Switch\<close>

text \<open>
  \<open>a || b\<close> on an optional string: the empty string and \<open>undefined\<close> are falsy.
\<close>

fun or_else :: "string option \<Rightarrow> string \<Rightarrow> string" where
  "or_else (Some s) d = (if s = [] then d else s)"
| "or_else None d = d"

record checkbox_props =
  cb_checked :: bool
  cb_disabled :: "bool option"
  cb_onPress :: "callback option"
  cb_color :: "string option"

text \<open>
  The child Checkbox gives its TouchableRipple: the icon and the fill drawn over it. The
  animated scale and border width are nodes of the host's animation library and are left
  out.
\<close>

record checkbox_view =
  cv_iconName :: string
  cv_iconColor :: string
  cv_fillBorderColor :: string

definition ripple_container :: style where
  "ripple_container = [(''borderRadius'', SNum 18)]"

definition Checkbox_render ::
  "colorlib \<Rightarrow> theme \<Rightarrow> checkbox_props \<Rightarrow> checkbox_view ripple_props" where
  "Checkbox_render col th p =
    (let checkedColor = or_else (cb_color p) (c_accent (th_colors th));
         uncheckedColor = ''rgba(0, 0, 0, .54)'';
         rippleColor =
           (if cb_disabled p = Some True then ''rgba(0, 0, 0, .16)''
            else col (ClearerRgba (32/100)) checkedColor);
         checkboxColor =
           (if cb_disabled p = Some True then c_disabled (th_colors th)
            else if cb_checked p then checkedColor else uncheckedColor)
     in \<lparr> rp_borderless = True,
          rp_background = None,
          rp_disabled = None,
          rp_onPress = (if cb_disabled p = Some True then None else cb_onPress p),
          rp_rippleColor = rippleColor,
          rp_underlayColor = None,
          rp_children = Elem \<lparr>
            cv_iconName = (if cb_checked p then ''check-box'' else ''check-box-outline-blank''),
            cv_iconColor = checkboxColor,
            cv_fillBorderColor = checkboxColor \<rparr>,
          rp_style = [ripple_container] \<rparr>)"

record radio_props =
  rb_checked :: "bool option"
  rb_disabled :: "bool option"
  rb_onPress :: "callback option"
  rb_color :: "string option"

text \<open>The View RadioButton gives its TouchableRipple holds the icon when checked.\<close>

record radio_view =
  rv_icon :: "(string \<times> string) option"

definition RadioButton_render ::
  "colorlib \<Rightarrow> theme \<Rightarrow> radio_props \<Rightarrow> radio_view ripple_props" where
  "RadioButton_render col th p =
    (let checkedColor =
           (if rb_disabled p = Some True then c_disabled (th_colors th)
            else or_else (rb_color p) (c_accent (th_colors th)));
         rippleColor =
           (if rb_disabled p = Some True then ''rgba(0, 0, 0, .16)''
            else col (FadeRgb (32/100)) checkedColor)
     in \<lparr> rp_borderless = True,
          rp_background = None,
          rp_disabled = None,
          rp_onPress = (if rb_disabled p = Some True then None else rb_onPress p),
          rp_rippleColor = rippleColor,
          rp_underlayColor = None,
          rp_children = Elem \<lparr>
            rv_icon = (if rb_checked p = Some True then Some (''done'', checkedColor) else None) \<rparr>,
          rp_style = [ripple_container] \<rparr>)"

record switch_props =
  sw_disabled :: "bool option"
  sw_value :: "bool option"
  sw_color :: "string option"
  sw_onValueChange :: "callback option"

text \<open>
  \<open>grey400\<close> and \<open>grey50\<close> come from the colour table of the library, which is a
  parameter here.
\<close>

record palette =
  grey400 :: string
  grey50 :: string

text \<open>The props SwitchRow gives the host's Switch.\<close>

record switch_view =
  sv_value :: "bool option"
  sv_disabled :: "bool option"
  sv_onTintColor :: string
  sv_thumbTintColor :: "string option"
  sv_onValueChange :: "callback option"

definition SwitchRow_render ::
  "platform \<Rightarrow> colorlib \<Rightarrow> palette \<Rightarrow> theme \<Rightarrow> switch_props \<Rightarrow> switch_view" where
  "SwitchRow_render pf col pal th p =
    (let checkedColor = or_else (sw_color p) (c_accent (th_colors th));
         trackTintColor =
           (if pf_os pf = IOS then checkedColor
            else if sw_disabled p = Some True then col (AlphaRgba (38/100)) (grey400 pal)
            else col (AlphaRgba (38/100)) checkedColor);
         trackThumbTintColor =
           (if pf_os pf = IOS then None
            else if sw_disabled p = Some True then Some (grey400 pal)
            else if sw_value p = Some True then Some checkedColor
            else Some (grey50 pal))
     in \<lparr> sv_value = sw_value p,
          sv_disabled = sw_disabled p,
          sv_onTintColor = trackTintColor,
          sv_thumbTintColor = trackThumbTintColor,
          sv_onValueChange = (if sw_disabled p = Some True then None else sw_onValueChange p) \<rparr>)"

text \<open>
  A call of a caller-supplied function, with its string arguments. When the host's Switch
  changes to \<open>v\<close> it calls \<open>onValueChange\<close>, if there is one, with the new value.
\<close>

datatype call = Call callback "string list"

definition valueChange :: "switch_view \<Rightarrow> bool \<Rightarrow> (callback \<times> bool) list" where
  "valueChange v b = (case sv_onValueChange v of None \<Rightarrow> [] | Some f \<Rightarrow> [(f, b)])"

section \<open>SearchBar\<close>

record searchbar_props =
  sb_placeholder :: "string option"
  sb_value :: string
  sb_icon :: "string option"
  sb_onChangeText :: callback
  sb_onIconPress :: "callback option"
  sb_style :: "style list"

text \<open>
  The \<open>onPress\<close> of a rendered icon button is either the instance's own
  \<open>_handleClearPress\<close> or the caller's \<open>onIconPress\<close>.
\<close>

datatype sb_handler = HandleClearPress | PropHandler callback

record touchable_icon =
  ti_borderless :: bool
  ti_rippleColor :: string
  ti_onPress :: sb_handler
  ti_iconStyle :: "style list"
  ti_name :: string

datatype left_icon = LeftTouchableIcon touchable_icon | LeftIcon "style list" string real

record text_input =
  in_style :: "style list"
  in_placeholder :: string
  in_placeholderTextColor :: string
  in_selectionColor :: string
  in_underlineColorAndroid :: string
  in_returnKeyType :: string
  in_value :: string
  in_onChangeText :: callback

record searchbar_view =
  sbv_paperStyle :: "style list"
  sbv_left :: left_icon
  sbv_input :: text_input
  sbv_clear :: "touchable_icon option"

definition sb_styles_container :: style where
  "sb_styles_container =
     [(''flexDirection'', SStr ''row''), (''alignItems'', SStr ''center''), (''margin'', SNum 4)]"

definition sb_styles_input :: style where
  "sb_styles_input = [(''flex'', SNum 1), (''fontSize'', SNum 18), (''paddingLeft'', SNum 8)]"

definition sb_styles_icon :: style where
  "sb_styles_icon = [(''margin'', SNum 12)]"

definition SearchBar_handleClearPress :: "searchbar_props \<Rightarrow> call list" where
  "SearchBar_handleClearPress p = [Call (sb_onChangeText p) ['''']]"

definition SearchBar_render :: "colorlib \<Rightarrow> theme \<Rightarrow> searchbar_props \<Rightarrow> searchbar_view" where
  "SearchBar_render col th p =
    (let colors = th_colors th;
         roundness = th_roundness th;
         textColor = c_text colors;
         iconColor = (if th_dark th then textColor else col (AlphaRgb (54/100)) textColor);
         rippleColor = col (AlphaRgb (32/100)) textColor
     in \<lparr> sbv_paperStyle =
            [(''borderRadius'', SNum roundness), (''elevation'', SNum 4)]
              # sb_styles_container # sb_style p,
          sbv_left =
            (case sb_onIconPress p of
               Some f \<Rightarrow> LeftTouchableIcon \<lparr>
                 ti_borderless = True,
                 ti_rippleColor = rippleColor,
                 ti_onPress = PropHandler f,
                 ti_iconStyle = [sb_styles_icon, [(''color'', SStr iconColor)]],
                 ti_name = or_else (sb_icon p) ''search'' \<rparr>
             | None \<Rightarrow> LeftIcon [sb_styles_icon, [(''color'', SStr iconColor)]] ''search'' 24),
          sbv_input = \<lparr>
            in_style = [sb_styles_input, [(''color'', SStr textColor)]],
            in_placeholder = or_else (sb_placeholder p) '''',
            in_placeholderTextColor = c_placeholder colors,
            in_selectionColor = c_primary colors,
            in_underlineColorAndroid = ''transparent'',
            in_returnKeyType = ''search'',
            in_value = sb_value p,
            in_onChangeText = sb_onChangeText p \<rparr>,
          sbv_clear =
            (if sb_value p \<noteq> [] then Some \<lparr>
                 ti_borderless = True,
                 ti_rippleColor = rippleColor,
                 ti_onPress = HandleClearPress,
                 ti_iconStyle = [sb_styles_icon, [(''color'', SStr iconColor)]],
                 ti_name = ''close'' \<rparr>
             else None) \<rparr>)"

text \<open>Pressing a rendered icon button runs its \<open>onPress\<close>.\<close>

definition pressIcon :: "searchbar_props \<Rightarrow> touchable_icon \<Rightarrow> call list" where
  "pressIcon p b =
     (case ti_onPress b of
        HandleClearPress \<Rightarrow> SearchBar_handleClearPress p
      | PropHandler f \<Rightarrow> [Call f []])"

section \<open>Card and DialogActions\<close>

text \<open>
  An element as the traversals see it: its type, which for a component carries the
  optional \<open>displayName\<close>, and its props. \<open>React.cloneElement\<close> keeps the type and adds
  the new props over the old ones. It is applied to elements; React throws on \<open>null\<close>,
  and the element it builds from a text has no type and is refused by the renderer, so
  both are the error \<open>NotAnElement\<close> here.
\<close>

datatype ctype = HostType string | Component string "string option"

datatype pval = PNat nat | PNum real | PBool bool | PStr string | PNames "string list"

record element =
  e_type :: ctype
  e_props :: "string \<rightharpoonup> pval"

fun isValidElement :: "'e node \<Rightarrow> bool" where
  "isValidElement (Elem e) = True"
| "isValidElement _ = False"

fun cloneElement :: "element node \<Rightarrow> (string \<rightharpoonup> pval) \<Rightarrow> error + element" where
  "cloneElement (Elem e) extra = Inr (e\<lparr>e_props := e_props e ++ extra\<rparr>)"
| "cloneElement _ extra = Inl NotAnElement"

text \<open>
  \<open>child.type.displayName\<close>: a component's display name, \<open>undefined\<close> for a component
  without one and for a host type; on a text \<open>child.type\<close> is \<open>undefined\<close> and on
  \<open>null\<close> there is no \<open>type\<close> to read, and the access throws a TypeError.
\<close>

definition displayName :: "element \<Rightarrow> string option" where
  "displayName e = (case e_type e of HostType _ \<Rightarrow> None | Component _ dn \<Rightarrow> dn)"

fun type_displayName :: "element node \<Rightarrow> error + string option" where
  "type_displayName (Elem e) = Inr (displayName e)"
| "type_displayName _ = Inl TypeError"

text \<open>
  \<open>React.Children.map(children, f)\<close> calls \<open>f(child, index)\<close> on each leaf in order and
  collects the results, leaving out those that are \<open>null\<close> or \<open>undefined\<close>; an
  exception of \<open>f\<close> ends the traversal. On \<open>children\<close> that is itself \<open>null\<close> or
  \<open>undefined\<close> it returns that value without a call; the model's result is then the
  empty list.
\<close>

fun mapLeaves ::
  "('e node \<Rightarrow> nat \<Rightarrow> error + 'r option) \<Rightarrow> nat \<Rightarrow> 'e node list \<Rightarrow> error + 'r list" where
  "mapLeaves f i [] = Inr []"
| "mapLeaves f i (c # cs) =
     (case f c i of
        Inl e \<Rightarrow> Inl e
      | Inr r \<Rightarrow>
          (case mapLeaves f (Suc i) cs of
             Inl e \<Rightarrow> Inl e
           | Inr rs \<Rightarrow> Inr (case r of None \<Rightarrow> rs | Some x \<Rightarrow> x # rs)))"

definition Children_map ::
  "'e node \<Rightarrow> ('e node \<Rightarrow> nat \<Rightarrow> error + 'r option) \<Rightarrow> error + 'r list" where
  "Children_map c f = mapLeaves f 0 (Children_toList c)"

record card_props =
  cd_elevation :: real
  cd_children :: "element node"
  cd_onPress :: "callback option"
  cd_style :: "style list"

datatype card_handler = HandlePressIn | HandlePressOut

text \<open>
  What Card renders: the style array of the animated Paper (its \<open>elevation\<close> entry is
  the animated value of the instance state), the props of the touchable and the cloned
  children inside the inner View.
\<close>

record card_view =
  cdv_paperStyle :: "style list"
  cdv_onPress :: "callback option"
  cdv_onPressIn :: "card_handler option"
  cdv_onPressOut :: "card_handler option"
  cdv_children :: "element list"

definition card_styles_card :: style where
  "card_styles_card = [(''margin'', SNum 4)]"

definition sum_map_Some :: "error + 'a \<Rightarrow> error + 'a option" where
  "sum_map_Some r = (case r of Inl e \<Rightarrow> Inl e | Inr x \<Rightarrow> Inr (Some x))"

definition Card_render :: "theme \<Rightarrow> card_props \<Rightarrow> error + card_view" where
  "Card_render th p =
    (let roundness = th_roundness th;
         total = Children_count (cd_children p)
     in case Children_map (cd_children p) (\<lambda>child _. type_displayName child) of
          Inl e \<Rightarrow> Inl e
        | Inr siblings \<Rightarrow>
            (case Children_map (cd_children p) (\<lambda>child index.
                    sum_map_Some (cloneElement child
                      [''index'' \<mapsto> PNat index, ''total'' \<mapsto> PNat total,
                       ''siblings'' \<mapsto> PNames siblings])) of
               Inl e \<Rightarrow> Inl e
             | Inr cloned \<Rightarrow> Inr \<lparr>
                 cdv_paperStyle =
                   card_styles_card
                     # [(''borderRadius'', SNum roundness), (''elevation'', SAnimated ''elevation'')]
                     # cd_style p,
                 cdv_onPress = cd_onPress p,
                 cdv_onPressIn = (if cd_onPress p \<noteq> None then Some HandlePressIn else None),
                 cdv_onPressOut = (if cd_onPress p \<noteq> None then Some HandlePressOut else None),
                 cdv_children = cloned \<rparr>))"





section \<open>Example inputs\<close>

text \<open>
  A colour library that returns its input, a theme and two elements, for the evaluated
  instances of the properties below.
\<close>

definition plainColor :: colorlib where
  "plainColor operation c = c"

definition sampleTheme :: theme where
  "sampleTheme =
     \<lparr>th_colors = \<lparr>c_text = ''#000'', c_accent = ''#f0f'', c_disabled = ''#ccc'',
                   c_placeholder = ''#999'', c_primary = ''#00f''\<rparr>,
      th_roundness = 4, th_dark = False\<rparr>"

definition coverElement :: element where
  "coverElement = \<lparr>e_type = Component ''CardCover'' (Some ''Card.Cover''), e_props = Map.empty\<rparr>"

definition buttonElement :: element where
  "buttonElement = \<lparr>e_type = Component ''Button'' None, e_props = [''title'' \<mapsto> PStr ''Ok'']\<rparr>"

section \<open>Menu: placement\<close>

record layout =
  l_width :: real
  l_height :: real

record layoutRectangle =
  r_x :: real
  r_y :: real
  r_width :: real
  r_height :: real

text \<open>
  The functions registered with the host's BackHandler and Dimensions are the bound
  methods of the instances; \<open>Foreign\<close> stands for the listeners of other code.
\<close>

datatype listener = HandleBack | HandleDismiss | Foreign string

text \<open>
  \<open>Animated.timing(value, {toValue, duration})\<close>, with the animated value named. A call
  of \<open>start\<close> is logged as the animation started, or for \<open>Animated.parallel\<close> the
  animations started together. Easing and the native-driver flag are left out.
\<close>

datatype toValue = Scalar real | XY real real

record timing =
  an_value :: string
  an_toValue :: toValue
  an_duration :: nat

datatype started = Single timing | Parallel "timing list"

text \<open>
  A Menu instance: its props (\<open>statusBarHeight\<close> after \<open>defaultProps\<close>), its state,
  and the host state its methods act on: the listeners of \<open>hardwareBackPress\<close> and of
  the dimension \<open>change\<close> event, the animations started, the delays of the pending
  \<open>setTimeout(this._show, ...)\<close> calls and the calls made to the caller's functions.
\<close>

record menu =
  mn_visible :: bool
  mn_statusBarHeight :: real
  mn_onDismiss :: callback
  mn_top :: real
  mn_left :: real
  mn_windowLayout :: layout
  mn_menuLayout :: layout
  mn_anchorLayout :: layout
  mn_backPress :: "listener set"
  mn_dimChange :: "listener set"
  mn_animations :: "started list"
  mn_showTimeouts :: "nat list"
  mn_calls :: "call list"

definition SCREEN_INDENT :: real where
  "SCREEN_INDENT = 8"

definition ANIMATION_DURATION :: nat where
  "ANIMATION_DURATION = 250"

text \<open>
  The numbers of the source are binary64 floating-point numbers. The result of an
  addition, a subtraction or a division is the exact result rounded to the nearest
  number with a significand of 53 bits, a tie going to the even significand:
  \<open>binary64\<close>. Below the normal range the spacing stays \<open>2 powi - 1074\<close>; a rounded
  result of magnitude \<open>2 ^ 1024\<close> or more is \<open>Infinity\<close>, for which \<open>overflow\<close>, a
  value above every finite number, stands. Comparison and negation are exact. The
  inputs are finite numbers; in the placement every operation has an input among its
  operands, so no operation meets two infinities.
\<close>

definition round_even :: "real \<Rightarrow> int" where
  "round_even r =
     (let f = \<lfloor>r\<rfloor>
      in if r - of_int f < 1 / 2 then f
         else if r - of_int f > 1 / 2 then f + 1
         else if even f then f else f + 1)"

definition overflow :: real where
  "overflow = 2 ^ 1024"

definition binary64 :: "real \<Rightarrow> real" where
  "binary64 x =
     (if x = 0 then 0
      else
        (let e = max (\<lfloor>log 2 \<bar>x\<bar>\<rfloor> - 52) (- 1074);
             r = of_int (round_even (x / 2 powi e)) * 2 powi e
         in if r \<ge> overflow then overflow
            else if r \<le> - overflow then - overflow
            else r))"

text \<open>
  The horizontal branch of \<open>render\<close>: the output range of the \<open>translateX\<close>
  interpolation it pushes and the final \<open>left\<close>.
\<close>

definition Menu_horizontal :: "menu \<Rightarrow> (real \<times> real) \<times> real" where
  "Menu_horizontal m =
    (let windowLayout = mn_windowLayout m; menuLayout = mn_menuLayout m;
         anchorLayout = mn_anchorLayout m; left = mn_left m
     in if left \<le> binary64 (binary64 (l_width windowLayout - l_width menuLayout)
                              - SCREEN_INDENT) then
          ((- binary64 (l_width menuLayout / 2), 0),
           (if left \<ge> 0 \<and> left < SCREEN_INDENT then SCREEN_INDENT else left))
        else
          (let left' = binary64 (left
                         + binary64 (l_width anchorLayout - l_width menuLayout));
               right = binary64 (left' + l_width menuLayout)
           in ((binary64 (l_width menuLayout / 2), 0),
               (if right \<le> l_width windowLayout
                   \<and> right > binary64 (l_width windowLayout - SCREEN_INDENT)
                then binary64 (binary64 (l_width windowLayout - SCREEN_INDENT)
                                 - l_width menuLayout)
                else left'))))"

text \<open>
  \<open>Platform.select({android: statusBarHeight, default: 0})\<close>.
\<close>

definition additionalVerticalValue :: "platform \<Rightarrow> menu \<Rightarrow> real" where
  "additionalVerticalValue pf m = (if pf_os pf = Android then mn_statusBarHeight m else 0)"

text \<open>
  The vertical branch. Its first test compares \<open>top\<close> with \<open>windowLayout.width\<close>, as
  the source does.
\<close>

definition Menu_vertical :: "platform \<Rightarrow> menu \<Rightarrow> (real \<times> real) \<times> real" where
  "Menu_vertical pf m =
    (let windowLayout = mn_windowLayout m; menuLayout = mn_menuLayout m;
         anchorLayout = mn_anchorLayout m; top = mn_top m
     in if top \<le> binary64 (binary64 (l_width windowLayout - l_height menuLayout)
                             - SCREEN_INDENT) then
          ((- binary64 (l_height menuLayout / 2), 0),
           (if top \<ge> 0 \<and> top < SCREEN_INDENT then SCREEN_INDENT else top))
        else
          (let top' = binary64 (top
                        + binary64 (l_height anchorLayout - l_height menuLayout));
               bottom = binary64 (binary64 (top' + l_height menuLayout)
                                    + additionalVerticalValue pf m)
           in ((binary64 (l_height menuLayout / 2), 0),
               (if bottom \<le> l_height windowLayout
                   \<and> bottom > binary64 (l_height windowLayout - SCREEN_INDENT)
                then binary64 (binary64 (binary64 (l_height windowLayout - SCREEN_INDENT)
                                           - l_height menuLayout)
                                 - additionalVerticalValue pf m)
                else top'))))"

text \<open>
  The placement \<open>render\<close> computes: the final \<open>left\<close> and \<open>top\<close>, the two
  translations, and \<open>positionStyle\<close>, whose \<open>top\<close> adds the status bar and whose
  horizontal key is \<open>right\<close> under a right-to-left layout.
\<close>

record menu_position =
  pos_left :: real
  pos_top :: real
  pos_translateX :: "real \<times> real"
  pos_translateY :: "real \<times> real"
  pos_style :: style

definition Menu_position :: "platform \<Rightarrow> bool \<Rightarrow> menu \<Rightarrow> menu_position" where
  "Menu_position pf isRTL m =
    (let (tx, left) = Menu_horizontal m;
         (ty, top) = Menu_vertical pf m
     in \<lparr> pos_left = left,
          pos_top = top,
          pos_translateX = tx,
          pos_translateY = ty,
          pos_style = [(''top'', SNum (binary64 (top + additionalVerticalValue pf m))),
                       ((if isRTL then ''right'' else ''left''), SNum left)] \<rparr>)"

text \<open>
  A Menu as \<open>_show\<close> leaves it after measuring: \<open>left\<close> and \<open>top\<close> are the anchor's
  position, the three layouts are the measured sizes.
\<close>

definition measuredMenu :: "layoutRectangle \<Rightarrow> layout \<Rightarrow> layout \<Rightarrow> real \<Rightarrow> menu" where
  "measuredMenu anchor menuSize window statusBar =
     \<lparr> mn_visible = True, mn_statusBarHeight = statusBar, mn_onDismiss = ''onDismiss'',
       mn_top = r_y anchor, mn_left = r_x anchor,
       mn_windowLayout = window, mn_menuLayout = menuSize,
       mn_anchorLayout = \<lparr>l_width = r_width anchor, l_height = r_height anchor\<rparr>,
       mn_backPress = {HandleDismiss}, mn_dimChange = {HandleDismiss},
       mn_animations = [], mn_showTimeouts = [], mn_calls = [] \<rparr>"

section \<open>Modal\<close>

text \<open>
  A Modal instance: its props (after \<open>defaultProps\<close>), its state (\<open>rendered\<close>, and
  the value the animated \<open>opacity\<close> was created with), and the host state its methods
  act on: the listeners of \<open>hardwareBackPress\<close>, the animations started and the calls
  made to the caller's functions. \<open>md_mounted\<close> records whether the host still has the
  instance mounted.
\<close>

record modal =
  md_dismissable :: bool
  md_visible :: bool
  md_onRequestClose :: "callback option"
  md_rendered :: bool
  md_opacity :: real
  md_backPress :: "listener set"
  md_animations :: "started list"
  md_calls :: "call list"
  md_mounted :: bool

definition Modal_constructor ::
  "bool \<Rightarrow> bool \<Rightarrow> callback option \<Rightarrow> listener set \<Rightarrow> modal" where
  "Modal_constructor dismissable visible onRequestClose registered =
     \<lparr> md_dismissable = dismissable, md_visible = visible,
       md_onRequestClose = onRequestClose,
       md_rendered = visible,
       md_opacity = (if visible then 1 else 0),
       md_backPress = registered, md_animations = [], md_calls = [], md_mounted = True \<rparr>"

definition Modal_componentWillReceiveProps :: "bool \<Rightarrow> modal \<Rightarrow> modal" where
  "Modal_componentWillReceiveProps visible m =
     (if md_visible m \<noteq> visible then
        (if visible then m\<lparr>md_rendered := True\<rparr> else m)
      else m)"

definition Modal_showModal :: "modal \<Rightarrow> modal" where
  "Modal_showModal m =
     m\<lparr> md_backPress := insert HandleBack (md_backPress m),
        md_animations := md_animations m @
          [Single \<lparr>an_value = ''opacity'', an_toValue = Scalar 1, an_duration = 280\<rparr>] \<rparr>"

text \<open>
  \<open>_hideModal\<close> passes a completion callback to \<open>start\<close>; the host calls it when the
  animation ends, and it is the separate function \<open>Modal_hideModal_onEnd\<close>.
\<close>

definition Modal_hideModal :: "modal \<Rightarrow> modal" where
  "Modal_hideModal m =
     m\<lparr> md_backPress := md_backPress m - {HandleBack},
        md_animations := md_animations m @
          [Single \<lparr>an_value = ''opacity'', an_toValue = Scalar 0, an_duration = 280\<rparr>] \<rparr>"

definition Modal_hideModal_onEnd :: "modal \<Rightarrow> modal" where
  "Modal_hideModal_onEnd m =
     (let m1 = (case md_onRequestClose m of
                  Some f \<Rightarrow> if md_visible m then m\<lparr>md_calls := md_calls m @ [Call f []]\<rparr> else m
                | None \<Rightarrow> m)
      in if md_visible m1 then Modal_showModal m1 else m1\<lparr>md_rendered := False\<rparr>)"

definition Modal_componentDidUpdate :: "bool \<Rightarrow> modal \<Rightarrow> modal" where
  "Modal_componentDidUpdate prevVisible m =
     (if prevVisible \<noteq> md_visible m then
        (if md_visible m then Modal_showModal m else Modal_hideModal m)
      else m)"

definition Modal_handleBack :: "modal \<Rightarrow> modal" where
  "Modal_handleBack m = (if md_dismissable m then Modal_hideModal m else m)"

text \<open>
  What the host does with a mounted Modal. A new \<open>visible\<close> prop runs
  \<open>componentWillReceiveProps\<close>, replaces the prop and runs \<open>componentDidUpdate\<close> with
  the previous one. A hardware back press calls the registered listener. Unmounting
  calls \<open>componentWillUnmount\<close>, which Modal does not define: no code of the component
  runs.
\<close>

datatype modal_event = MdSetVisible bool | MdBackPress | MdHideEnd | MdUnmount

fun Modal_step :: "modal \<Rightarrow> modal_event \<Rightarrow> modal" where
  "Modal_step m (MdSetVisible v) =
     (let prev = md_visible m
      in Modal_componentDidUpdate prev ((Modal_componentWillReceiveProps v m)\<lparr>md_visible := v\<rparr>))"
| "Modal_step m MdBackPress =
     (if HandleBack \<in> md_backPress m then Modal_handleBack m else m)"
| "Modal_step m MdHideEnd = Modal_hideModal_onEnd m"
| "Modal_step m MdUnmount = m\<lparr>md_mounted := False\<rparr>"

definition Modal_run :: "modal \<Rightarrow> modal_event list \<Rightarrow> modal" where
  "Modal_run m es = foldl Modal_step m es"

section \<open>Menu: showing and hiding\<close>

text \<open>
  \<open>_show\<close> is asynchronous: it registers the listeners, reads the window size and
  awaits the measurement of the menu and of the anchor. A measurement whose view
  reference is unset never resolves (\<open>None\<close>), and \<open>_show\<close> then never continues. The
  outcome of the measurements is an argument of the model.
\<close>

record measurement =
  ms_window :: layout
  ms_menu :: "layoutRectangle option"
  ms_anchor :: "layoutRectangle option"

definition Menu_show :: "measurement \<Rightarrow> menu \<Rightarrow> menu" where
  "Menu_show ms m =
    (let m1 = m\<lparr> mn_backPress := insert HandleDismiss (mn_backPress m),
                 mn_dimChange := insert HandleDismiss (mn_dimChange m) \<rparr>;
         windowLayout = ms_window ms
     in case (ms_menu ms, ms_anchor ms) of
          (Some menuLayout, Some anchorLayout) \<Rightarrow>
            if l_width windowLayout = 0 \<or> l_height windowLayout = 0
               \<or> r_width menuLayout = 0 \<or> r_height menuLayout = 0
               \<or> r_width anchorLayout = 0 \<or> r_height anchorLayout = 0
            then m1\<lparr> mn_backPress := mn_backPress m1 - {HandleDismiss},
                     mn_showTimeouts := mn_showTimeouts m1 @ [ANIMATION_DURATION] \<rparr>
            else m1\<lparr> mn_left := r_x anchorLayout,
                     mn_top := r_y anchorLayout,
                     mn_windowLayout :=
                       \<lparr>l_width = l_width windowLayout, l_height = l_height windowLayout\<rparr>,
                     mn_anchorLayout :=
                       \<lparr>l_width = r_width anchorLayout, l_height = r_height anchorLayout\<rparr>,
                     mn_menuLayout :=
                       \<lparr>l_width = r_width menuLayout, l_height = r_height menuLayout\<rparr>,
                     mn_animations := mn_animations m1 @
                       [Parallel
                         [\<lparr>an_value = ''scaleAnimation'',
                           an_toValue = XY (r_width menuLayout) (r_height menuLayout),
                           an_duration = ANIMATION_DURATION\<rparr>,
                          \<lparr>an_value = ''opacityAnimation'', an_toValue = Scalar 1,
                           an_duration = ANIMATION_DURATION\<rparr>]] \<rparr>
        | _ \<Rightarrow> m1)"

text \<open>
  \<open>_hide\<close>. The completion callback of its animation resets the scale value, which the
  model does not track.
\<close>

definition Menu_hide :: "menu \<Rightarrow> menu" where
  "Menu_hide m =
     m\<lparr> mn_backPress := mn_backPress m - {HandleDismiss},
        mn_dimChange := mn_dimChange m - {HandleDismiss},
        mn_animations := mn_animations m @
          [Single \<lparr>an_value = ''opacityAnimation'', an_toValue = Scalar 0,
                   an_duration = ANIMATION_DURATION\<rparr>] \<rparr>"

definition Menu_updateVisibility :: "measurement \<Rightarrow> menu \<Rightarrow> menu" where
  "Menu_updateVisibility ms m = (if mn_visible m then Menu_show ms m else Menu_hide m)"

definition Menu_componentDidUpdate :: "bool \<Rightarrow> measurement \<Rightarrow> menu \<Rightarrow> menu" where
  "Menu_componentDidUpdate prevVisible ms m =
     (if prevVisible \<noteq> mn_visible m then Menu_updateVisibility ms m else m)"

definition Menu_handleDismiss :: "menu \<Rightarrow> menu" where
  "Menu_handleDismiss m =
     (if mn_visible m then m\<lparr>mn_calls := mn_calls m @ [Call (mn_onDismiss m) []]\<rparr> else m)"

definition Menu_componentWillUnmount :: "menu \<Rightarrow> menu" where
  "Menu_componentWillUnmount m =
     m\<lparr> mn_backPress := mn_backPress m - {HandleDismiss},
        mn_dimChange := mn_dimChange m - {HandleDismiss} \<rparr>"

text \<open>The state a Menu instance starts with.\<close>

definition Menu_initial ::
  "bool \<Rightarrow> real \<Rightarrow> callback \<Rightarrow> listener set \<Rightarrow> listener set \<Rightarrow> menu" where
  "Menu_initial visible statusBarHeight onDismiss backPress dimChange =
     \<lparr> mn_visible = visible, mn_statusBarHeight = statusBarHeight, mn_onDismiss = onDismiss,
       mn_top = 0, mn_left = 0,
       mn_windowLayout = \<lparr>l_width = 0, l_height = 0\<rparr>,
       mn_menuLayout = \<lparr>l_width = 0, l_height = 0\<rparr>,
       mn_anchorLayout = \<lparr>l_width = 0, l_height = 0\<rparr>,
       mn_backPress = backPress, mn_dimChange = dimChange,
       mn_animations = [], mn_showTimeouts = [], mn_calls = [] \<rparr>"

section \<open>Snackbar\<close>

datatype duration = Ms nat | Infinity

text \<open>
  A Snackbar instance: props, state, the \<open>_hideTimeout\<close> field and the host state: the
  pending timers (identifier, function, delay) with the next identifier \<open>setTimeout\<close>
  returns, the animations started, the number of show animations whose completion
  callback the host has not called yet, and the calls made to the caller's functions.
\<close>

record snackbar =
  sn_visible :: bool
  sn_duration :: duration
  sn_onDismiss :: callback
  sn_height :: real
  sn_rendered :: bool
  sn_hideTimeout :: "nat option"
  sn_timers :: "(nat \<times> callback \<times> nat) list"
  sn_nextTimer :: nat
  sn_showsRunning :: nat
  sn_animations :: "started list"
  sn_calls :: "call list"
  sn_mounted :: bool

definition SNACKBAR_ANIMATION_DURATION :: nat where
  "SNACKBAR_ANIMATION_DURATION = 250"

definition DURATION_SHORT :: duration where
  "DURATION_SHORT = Ms 2000"

definition DURATION_LONG :: duration where
  "DURATION_LONG = Ms 3500"

definition DURATION_INDEFINITE :: duration where
  "DURATION_INDEFINITE = Infinity"

text \<open>
  \<open>clearTimeout(this._hideTimeout)\<close> cancels the timer with the stored identifier, if
  it is pending; with no identifier stored it does nothing.
\<close>

definition clearTimeout :: "nat option \<Rightarrow> (nat \<times> callback \<times> nat) list \<Rightarrow> (nat \<times> callback \<times> nat) list" where
  "clearTimeout h ts = (case h of None \<Rightarrow> ts | Some i \<Rightarrow> filter (\<lambda>t. fst t \<noteq> i) ts)"

definition Snackbar_show :: "snackbar \<Rightarrow> snackbar" where
  "Snackbar_show s =
     s\<lparr> sn_animations := sn_animations s @
          [Parallel
            [\<lparr>an_value = ''opacity'', an_toValue = Scalar 1,
              an_duration = SNACKBAR_ANIMATION_DURATION\<rparr>,
             \<lparr>an_value = ''translateY'', an_toValue = Scalar 0,
              an_duration = SNACKBAR_ANIMATION_DURATION\<rparr>]],
        sn_showsRunning := Suc (sn_showsRunning s) \<rparr>"

text \<open>
  The completion callback \<open>_show\<close> passes to \<open>start\<close>. It takes no argument: whether
  the animation finished or was stopped is not looked at.
\<close>

definition Snackbar_show_onEnd :: "snackbar \<Rightarrow> snackbar" where
  "Snackbar_show_onEnd s =
     (if sn_duration s \<noteq> DURATION_INDEFINITE then
        (case sn_duration s of
           Ms d \<Rightarrow> s\<lparr> sn_hideTimeout := Some (sn_nextTimer s),
                      sn_timers := sn_timers s @ [(sn_nextTimer s, sn_onDismiss s, d)],
                      sn_nextTimer := Suc (sn_nextTimer s) \<rparr>
         | Infinity \<Rightarrow> s)
      else s)"

definition Snackbar_hide :: "snackbar \<Rightarrow> snackbar" where
  "Snackbar_hide s =
     s\<lparr> sn_timers := clearTimeout (sn_hideTimeout s) (sn_timers s),
        sn_animations := sn_animations s @
          [Parallel
            [\<lparr>an_value = ''opacity'', an_toValue = Scalar 0,
              an_duration = SNACKBAR_ANIMATION_DURATION\<rparr>,
             \<lparr>an_value = ''translateY'', an_toValue = Scalar (sn_height s),
              an_duration = SNACKBAR_ANIMATION_DURATION\<rparr>]] \<rparr>"

definition Snackbar_componentDidMount :: "snackbar \<Rightarrow> snackbar" where
  "Snackbar_componentDidMount s = (if sn_visible s then Snackbar_show s else s)"

definition Snackbar_componentDidUpdate :: "bool \<Rightarrow> snackbar \<Rightarrow> snackbar" where
  "Snackbar_componentDidUpdate prevVisible s =
     (if prevVisible \<noteq> sn_visible s then
        (if sn_visible s then Snackbar_show s else Snackbar_hide s)
      else s)"

definition Snackbar_componentWillUnmount :: "snackbar \<Rightarrow> snackbar" where
  "Snackbar_componentWillUnmount s =
     s\<lparr> sn_timers := clearTimeout (sn_hideTimeout s) (sn_timers s) \<rparr>"

definition Snackbar_handleLayout :: "real \<Rightarrow> snackbar \<Rightarrow> snackbar" where
  "Snackbar_handleLayout height s = s\<lparr> sn_height := height, sn_rendered := True \<rparr>"

definition Snackbar_initial :: "bool \<Rightarrow> duration \<Rightarrow> callback \<Rightarrow> snackbar" where
  "Snackbar_initial visible duration onDismiss =
     \<lparr> sn_visible = visible, sn_duration = duration, sn_onDismiss = onDismiss,
       sn_height = 0, sn_rendered = False, sn_hideTimeout = None,
       sn_timers = [], sn_nextTimer = 0, sn_showsRunning = 0,
       sn_animations = [], sn_calls = [], sn_mounted = True \<rparr>"

text \<open>
  What the host does with a Snackbar. Mounting runs \<open>componentDidMount\<close>; a new
  \<open>visible\<close> prop runs \<open>componentDidUpdate\<close> with the previous one. The host's
  animation library calls the completion callback of a started animation once, when
  the animation has run to its end or when it is stopped because a new animation takes
  over its value; \<open>SnShowEnd\<close> is that call for the oldest show animation still
  waiting for it. A pending timer that fires is removed and its function is called.
  Unmounting runs \<open>componentWillUnmount\<close>.
\<close>

datatype snackbar_event =
  SnMount | SnSetVisible bool | SnLayout real | SnShowEnd | SnTimerFires nat | SnUnmount

fun Snackbar_step :: "snackbar \<Rightarrow> snackbar_event \<Rightarrow> snackbar" where
  "Snackbar_step s SnMount = Snackbar_componentDidMount s"
| "Snackbar_step s (SnSetVisible v) =
     (let prev = sn_visible s in Snackbar_componentDidUpdate prev (s\<lparr>sn_visible := v\<rparr>))"
| "Snackbar_step s (SnLayout h) = Snackbar_handleLayout h s"
| "Snackbar_step s SnShowEnd =
     (if sn_showsRunning s = 0 then s
      else Snackbar_show_onEnd (s\<lparr>sn_showsRunning := sn_showsRunning s - 1\<rparr>))"
| "Snackbar_step s (SnTimerFires i) =
     (case filter (\<lambda>t. fst t = i) (sn_timers s) of
        [] \<Rightarrow> s
      | t # _ \<Rightarrow> s\<lparr> sn_timers := filter (\<lambda>t. fst t \<noteq> i) (sn_timers s),
                    sn_calls := sn_calls s @ [Call (fst (snd t)) []] \<rparr>)"
| "Snackbar_step s SnUnmount = (Snackbar_componentWillUnmount s)\<lparr>sn_mounted := False\<rparr>"

definition Snackbar_run :: "snackbar \<Rightarrow> snackbar_event list \<Rightarrow> snackbar" where
  "Snackbar_run s es = foldl Snackbar_step s es"

section \<open>Properties\<close>


subsection \<open>Traversals and style arrays\<close>



lemma mapLeaves_TypeError:
  assumes "\<And>x j e. f x j = Inl e \<Longrightarrow> e = TypeError"
    and "\<And>x j. \<not> isValidElement x \<Longrightarrow> f x j = Inl TypeError"
    and "\<exists>x\<in>set xs. \<not> isValidElement x"
  shows "mapLeaves f i xs = Inl TypeError"
  using assms(3)
proof (induction xs arbitrary: i)
  case Nil
  then show ?case by simp
next
  case (Cons x xs)
  show ?case
  proof (cases "f x i")
    case (Inl e)
    then show ?thesis using assms(1) by simp
  next
    case (Inr r)
    then have "isValidElement x" using assms(2) by fastforce
    with Cons.prems have "\<exists>x\<in>set xs. \<not> isValidElement x" by auto
    then have "mapLeaves f (Suc i) xs = Inl TypeError" by (rule Cons.IH)
    with Inr show ?thesis by simp
  qed
qed

lemma styleValue_own:
  assumes "\<forall>s\<in>set user. k \<notin> fst ` set s"
  shows "styleValue (a # b # user) k = map_of (rev (a @ b)) k"
proof -
  have "k \<notin> fst ` set (rev (concat user))" using assms by auto
  then have "map_of (rev (concat user)) k = None" by (simp add: map_of_eq_None_iff)
  then show ?thesis by (simp add: styleValue_def map_add_def)
qed

lemma type_displayName_error: "type_displayName x = Inl e \<Longrightarrow> e = TypeError"
  by (cases x) simp_all

lemma type_displayName_invalid: "\<not> isValidElement x \<Longrightarrow> type_displayName x = Inl TypeError"
  by (cases x) simp_all




subsection \<open>Rounding\<close>

text \<open>
  An integer of magnitude below \<open>2 ^ 53\<close> is a binary64 number: rounding leaves it as
  it is. Sums and differences of such integers are therefore computed exactly.
\<close>

lemma round_even_of_int: "round_even (of_int k) = k"
  by (simp add: round_even_def)

lemma binary64_of_int:
  fixes n :: int
  assumes "\<bar>n\<bar> < 2 ^ 53"
  shows "binary64 (of_int n) = of_int n"
proof (cases "n = 0")
  case True
  then show ?thesis by (simp add: binary64_def)
next
  case False
  define a :: real where "a = \<bar>of_int n\<bar>"
  have a1: "1 \<le> a" using False by (simp add: a_def)
  have a2: "a < 2 ^ 53"
  proof -
    have "(of_int \<bar>n\<bar> :: real) < of_int (2 ^ 53)" using assms by (simp only: of_int_less_iff)
    then show ?thesis by (simp add: a_def)
  qed
  define L where "L = \<lfloor>log 2 a\<rfloor>"
  have L0: "0 \<le> L" using a1 by (simp add: L_def zero_le_log_cancel_iff)
  have "log 2 a < 53"
    using a1 a2 by (subst log_less_iff) (auto simp: powr_realpow[symmetric])
  then have L52: "L \<le> 52" by (simp add: L_def floor_le_iff)
  define k where "k = nat (52 - L)"
  have "max (L - 52) (- 1074) = - int k" using L0 L52 by (simp add: k_def)
  then have E: "max (\<lfloor>log 2 \<bar>real_of_int n\<bar>\<rfloor> - 52) (- 1074) = - int k"
    by (simp only: L_def a_def)
  have p: "(2::real) powi (- int k) = inverse (2 ^ k)"
    by (simp add: power_int_minus)
  have q: "of_int n / (2::real) powi (- int k) = of_int (n * 2 ^ k)"
    by (simp add: p divide_inverse)
  have R: "of_int (round_even (of_int n / (2::real) powi (- int k))) * (2::real) powi (- int k)
        = of_int n"
    unfolding q round_even_of_int by (simp add: p)
  have "(2::real) ^ 53 \<le> 2 ^ 1024" by (rule power_increasing) simp_all
  with a2 have "a < overflow" unfolding overflow_def by (rule less_le_trans)
  then have b: "\<not> overflow \<le> real_of_int n" "\<not> real_of_int n \<le> - overflow"
    unfolding a_def by linarith+
  have nz: "real_of_int n \<noteq> 0" using False by simp
  show ?thesis
    unfolding binary64_def Let_def E R by (simp only: nz b if_False)
qed

lemma binary64_numeral:
  "numeral k < (2 ^ 53 :: int) \<Longrightarrow> binary64 (numeral k) = numeral k"
  "numeral k < (2 ^ 53 :: int) \<Longrightarrow> binary64 (- numeral k) = - numeral k"
  using binary64_of_int [of "numeral k"] binary64_of_int [of "- numeral k"] by simp_all

lemma binary64_0: "binary64 0 = 0"
  by (simp add: binary64_def)

text \<open>
  A number in the normal range, between \<open>2 powi L\<close> and \<open>2 powi (L + 1)\<close>, is
  rounded to a multiple of \<open>2 powi (L - 52)\<close>.
\<close>

lemma binary64_normal:
  fixes L :: int
  assumes "2 powi L \<le> \<bar>x\<bar>" and "\<bar>x\<bar> < 2 powi (L + 1)" and "- 1022 \<le> L"
    and "\<bar>of_int (round_even (x / 2 powi (L - 52))) * 2 powi (L - 52)\<bar> < overflow"
  shows "binary64 x = of_int (round_even (x / 2 powi (L - 52))) * 2 powi (L - 52)"
proof -
  have pos: "0 < \<bar>x\<bar>"
    using assms(1) by (smt (verit) zero_less_power_int)
  then have nz: "x \<noteq> 0" by simp
  have l: "(2::real) powr of_int L = 2 powi L"
    by (rule powr_real_of_int') simp_all
  have "(2::real) powr of_int (L + 1) = 2 powi (L + 1)"
    by (rule powr_real_of_int') simp_all
  then have u: "(2::real) powr (of_int L + 1) = 2 powi (L + 1)"
    by simp
  have "\<lfloor>log 2 \<bar>x\<bar>\<rfloor> = L"
    using assms(1,2) pos by (simp add: floor_log_eq_powr_iff l u)
  then have E: "max (\<lfloor>log 2 \<bar>x\<bar>\<rfloor> - 52) (- 1074) = L - 52"
    using assms(3) by simp
  from assms(4) have b:
    "\<not> overflow \<le> of_int (round_even (x / 2 powi (L - 52))) * 2 powi (L - 52)"
    "\<not> of_int (round_even (x / 2 powi (L - 52))) * 2 powi (L - 52) \<le> - overflow"
    by linarith+
  show ?thesis
    unfolding binary64_def Let_def E by (simp only: nz b if_False)
qed
text \<open>
  C8. For every props whose \<open>children\<close> is a single element, TouchableRipple renders
  a touchable, and that touchable is disabled exactly when the \<open>disabled\<close> prop is
  true or \<open>onPress\<close> is absent; in particular without \<open>onPress\<close> it is disabled
  whatever the \<open>disabled\<close> prop is.
\<close>

theorem TouchableRipple_disabled_iff:
  assumes "isValidElement (rp_children p)"
  shows "\<exists>t. TouchableRipple_render pf col p = Inr t
       \<and> (t_disabled t \<longleftrightarrow> rp_disabled p = Some True \<or> rp_onPress p = None)
       \<and> (rp_onPress p = None \<longrightarrow> t_disabled t)"
proof -
  from assms obtain e where "rp_children p = Elem e"
    by (cases "rp_children p") simp_all
  then show ?thesis
    by (simp add: TouchableRipple_render_def Let_def)
qed

theorem TouchableRipple_disabled_iff_witness:
  "(\<exists>t. TouchableRipple_render \<lparr>pf_os = IOS, pf_version = 11\<rparr> plainColor
      \<lparr>rp_borderless = False, rp_background = None, rp_disabled = Some False,
       rp_onPress = Some ''open'', rp_rippleColor = ''rgba(0, 0, 0, .32)'',
       rp_underlayColor = None, rp_children = Elem ''View'', rp_style = []\<rparr> = Inr t
      \<and> \<not> t_disabled t)
   \<and> (\<exists>t. TouchableRipple_render \<lparr>pf_os = Android, pf_version = 23\<rparr> plainColor
      \<lparr>rp_borderless = False, rp_background = None, rp_disabled = Some False,
       rp_onPress = None, rp_rippleColor = ''rgba(0, 0, 0, .32)'',
       rp_underlayColor = None, rp_children = Elem ''View'', rp_style = []\<rparr> = Inr t
      \<and> t_disabled t)"
  using
    TouchableRipple_disabled_iff
      [of "\<lparr>rp_borderless = False, rp_background = None, rp_disabled = Some False,
            rp_onPress = Some ''open'', rp_rippleColor = ''rgba(0, 0, 0, .32)'',
            rp_underlayColor = None, rp_children = Elem ''View'', rp_style = []\<rparr>"
          "\<lparr>pf_os = IOS, pf_version = 11\<rparr>" plainColor]
    TouchableRipple_disabled_iff
      [of "\<lparr>rp_borderless = False, rp_background = None, rp_disabled = Some False,
            rp_onPress = None, rp_rippleColor = ''rgba(0, 0, 0, .32)'',
            rp_underlayColor = None, rp_children = Elem ''View'', rp_style = []\<rparr>"
          "\<lparr>pf_os = Android, pf_version = 23\<rparr>" plainColor]
  by simp

text \<open>
  C9. With \<open>disabled\<close> true, Checkbox and RadioButton hand \<open>onPress = undefined\<close> to
  their TouchableRipple and SwitchRow hands \<open>onValueChange = undefined\<close> to the Switch;
  the touchable rendered from them is disabled and a press on it, or a value change of
  the Switch, calls nothing.
\<close>

theorem disabled_controls_drop_callback:
  assumes "cb_disabled c = Some True" and "rb_disabled r = Some True"
    and "sw_disabled s = Some True"
  shows "rp_onPress (Checkbox_render col th c) = None
       \<and> rp_onPress (RadioButton_render col th r) = None
       \<and> sv_onValueChange (SwitchRow_render pf col pal th s) = None
       \<and> (\<exists>t. TouchableRipple_render pf col (Checkbox_render col th c) = Inr t
              \<and> t_onPress t = None \<and> t_disabled t \<and> press t = [])
       \<and> (\<exists>t. TouchableRipple_render pf col (RadioButton_render col th r) = Inr t
              \<and> t_onPress t = None \<and> t_disabled t \<and> press t = [])
       \<and> valueChange (SwitchRow_render pf col pal th s) b = []"
proof -
  have c1: "rp_onPress (Checkbox_render col th c) = None"
    using assms(1) by (simp add: Checkbox_render_def Let_def)
  have r1: "rp_onPress (RadioButton_render col th r) = None"
    using assms(2) by (simp add: RadioButton_render_def Let_def)
  have s1: "sv_onValueChange (SwitchRow_render pf col pal th s) = None"
    using assms(3) by (simp add: SwitchRow_render_def Let_def)
  have c2: "\<exists>t. TouchableRipple_render pf col (Checkbox_render col th c) = Inr t
              \<and> t_onPress t = None \<and> t_disabled t \<and> press t = []"
    using assms(1)
    by (simp add: TouchableRipple_render_def Checkbox_render_def Let_def press_def)
  have r2: "\<exists>t. TouchableRipple_render pf col (RadioButton_render col th r) = Inr t
              \<and> t_onPress t = None \<and> t_disabled t \<and> press t = []"
    using assms(2)
    by (simp add: TouchableRipple_render_def RadioButton_render_def Let_def press_def)
  have s2: "valueChange (SwitchRow_render pf col pal th s) b = []"
    using s1 by (simp add: valueChange_def)
  from c1 r1 s1 c2 r2 s2 show ?thesis by blast
qed

theorem disabled_controls_drop_callback_witness:
  "rp_onPress (Checkbox_render (\<lambda>_ c. c)
       \<lparr>th_colors = \<lparr>c_text = ''#000'', c_accent = ''#f0f'', c_disabled = ''#ccc'',
                     c_placeholder = ''#999'', c_primary = ''#00f''\<rparr>,
        th_roundness = 2, th_dark = False\<rparr>
       \<lparr>cb_checked = True, cb_disabled = Some True, cb_onPress = Some ''toggle'',
        cb_color = None\<rparr>) = None
   \<and> valueChange (SwitchRow_render \<lparr>pf_os = Android, pf_version = 23\<rparr> (\<lambda>_ c. c)
       \<lparr>grey400 = ''#bdbdbd'', grey50 = ''#fafafa''\<rparr>
       \<lparr>th_colors = \<lparr>c_text = ''#000'', c_accent = ''#f0f'', c_disabled = ''#ccc'',
                     c_placeholder = ''#999'', c_primary = ''#00f''\<rparr>,
        th_roundness = 2, th_dark = False\<rparr>
       \<lparr>sw_disabled = Some True, sw_value = Some False, sw_color = None,
        sw_onValueChange = Some ''flip''\<rparr>) True = []"
  using disabled_controls_drop_callback
    [of "\<lparr>cb_checked = True, cb_disabled = Some True, cb_onPress = Some ''toggle'',
          cb_color = None\<rparr>"
        "\<lparr>rb_checked = Some True, rb_disabled = Some True, rb_onPress = Some ''pick'',
          rb_color = None\<rparr>"
        "\<lparr>sw_disabled = Some True, sw_value = Some False, sw_color = None,
          sw_onValueChange = Some ''flip''\<rparr>"
        "\<lambda>_ c. c"
        "\<lparr>th_colors = \<lparr>c_text = ''#000'', c_accent = ''#f0f'', c_disabled = ''#ccc'',
                     c_placeholder = ''#999'', c_primary = ''#00f''\<rparr>,
          th_roundness = 2, th_dark = False\<rparr>"
        "\<lparr>pf_os = Android, pf_version = 23\<rparr>"
        "\<lparr>grey400 = ''#bdbdbd'', grey50 = ''#fafafa''\<rparr>"
        True]
  by simp

text \<open>
  C10. SearchBar renders the clear button, the icon button named \<open>close\<close>, exactly when
  \<open>value\<close> is a non-empty string, and a press on that button calls \<open>onChangeText\<close>
  with the empty string.
\<close>

theorem SearchBar_clear_button:
  "(sbv_clear (SearchBar_render col th p) \<noteq> None \<longleftrightarrow> sb_value p \<noteq> [])
   \<and> (\<forall>b. sbv_clear (SearchBar_render col th p) = Some b \<longrightarrow>
          ti_name b = ''close'' \<and> pressIcon p b = [Call (sb_onChangeText p) ['''']])"
  by (auto simp: SearchBar_render_def Let_def pressIcon_def SearchBar_handleClearPress_def)

theorem SearchBar_clear_button_witness:
  "sb_value \<lparr>sb_placeholder = None, sb_value = ''tea'', sb_icon = None,
             sb_onChangeText = ''setQuery'', sb_onIconPress = None, sb_style = []\<rparr> \<noteq> []
   \<and> (\<exists>b. sbv_clear (SearchBar_render (\<lambda>_ c. c)
         \<lparr>th_colors = \<lparr>c_text = ''#000'', c_accent = ''#f0f'', c_disabled = ''#ccc'',
                       c_placeholder = ''#999'', c_primary = ''#00f''\<rparr>,
          th_roundness = 2, th_dark = False\<rparr>
         \<lparr>sb_placeholder = None, sb_value = ''tea'', sb_icon = None,
          sb_onChangeText = ''setQuery'', sb_onIconPress = None, sb_style = []\<rparr>) = Some b
        \<and> pressIcon \<lparr>sb_placeholder = None, sb_value = ''tea'', sb_icon = None,
             sb_onChangeText = ''setQuery'', sb_onIconPress = None, sb_style = []\<rparr> b
           = [Call ''setQuery'' ['''']])"
  using SearchBar_clear_button
    [of "\<lambda>_ c. c"
        "\<lparr>th_colors = \<lparr>c_text = ''#000'', c_accent = ''#f0f'', c_disabled = ''#ccc'',
                       c_placeholder = ''#999'', c_primary = ''#00f''\<rparr>,
          th_roundness = 2, th_dark = False\<rparr>"
        "\<lparr>sb_placeholder = None, sb_value = ''tea'', sb_icon = None,
          sb_onChangeText = ''setQuery'', sb_onIconPress = None, sb_style = []\<rparr>"]
  by (simp add: SearchBar_render_def Let_def)




text \<open>
  C5. The library does not guard against malformed children. When \<open>children\<close> is not a
  single element, TouchableRipple's render ends in the error of \<open>React.Children.only\<close>
  on both platform branches; when some child of a Card is not an element, Card's render
  ends in the TypeError of reading \<open>child.type.displayName\<close>.
\<close>

theorem malformed_children_raise:
  "(\<not> isValidElement (rp_children p) \<longrightarrow>
       TouchableRipple_render pf col p = Inl OnlyChildError)
   \<and> ((\<exists>n\<in>set (Children_toList (cd_children cp)). \<not> isValidElement n) \<longrightarrow>
       Card_render th cp = Inl TypeError)"
proof (intro conjI impI)
  assume "\<not> isValidElement (rp_children p)"
  then have "Children_only (rp_children p) = Inl OnlyChildError"
    by (cases "rp_children p") simp_all
  then show "TouchableRipple_render pf col p = Inl OnlyChildError"
    by (simp add: TouchableRipple_render_def Let_def)
next
  assume "\<exists>n\<in>set (Children_toList (cd_children cp)). \<not> isValidElement n"
  then have "Children_map (cd_children cp) (\<lambda>child _. type_displayName child) = Inl TypeError"
    unfolding Children_map_def
    by (intro mapLeaves_TypeError type_displayName_error type_displayName_invalid)
  then show "Card_render th cp = Inl TypeError"
    by (simp add: Card_render_def Let_def)
qed

theorem malformed_children_raise_witness:
  "TouchableRipple_render \<lparr>pf_os = Android, pf_version = 23\<rparr> plainColor
      \<lparr>rp_borderless = False, rp_background = None, rp_disabled = None,
       rp_onPress = Some ''open'', rp_rippleColor = ''rgba(0, 0, 0, .32)'',
       rp_underlayColor = None,
       rp_children = Arr [Elem coverElement, Elem buttonElement], rp_style = []\<rparr>
     = Inl OnlyChildError
   \<and> Card_render sampleTheme
       \<lparr>cd_elevation = 2, cd_children = Arr [Elem coverElement, Text ''hello''],
        cd_onPress = None, cd_style = []\<rparr> = Inl TypeError"
  using malformed_children_raise
    [of "\<lparr>rp_borderless = False, rp_background = None, rp_disabled = None,
          rp_onPress = Some ''open'', rp_rippleColor = ''rgba(0, 0, 0, .32)'',
          rp_underlayColor = None,
          rp_children = Arr [Elem coverElement, Elem buttonElement], rp_style = []\<rparr>"
        "\<lparr>pf_os = Android, pf_version = 23\<rparr>" plainColor
        "\<lparr>cd_elevation = 2, cd_children = Arr [Elem coverElement, Text ''hello''],
          cd_onPress = None, cd_style = []\<rparr>"
        sampleTheme]
  by (simp add: Children_toList_def)

text \<open>
  C7, as stated, fails: the caller's \<open>style\<close> comes last in the style array of the
  SearchBar container, so a \<open>borderRadius\<close> in it replaces the theme's roundness.
\<close>

theorem SearchBar_borderRadius_counterexample:
  "styleValue (sbv_paperStyle (SearchBar_render plainColor sampleTheme
       \<lparr>sb_placeholder = None, sb_value = ''tea'', sb_icon = None,
        sb_onChangeText = ''setQuery'', sb_onIconPress = None,
        sb_style = [[(''borderRadius'', SNum 0)]]\<rparr>)) ''borderRadius'' = Some (SNum 0)
   \<and> th_roundness sampleTheme = 4"
  by (simp add: SearchBar_render_def Let_def styleValue_def sb_styles_container_def
      sampleTheme_def)

text \<open>
  C7, amended. The colour of SearchBar's input text is the theme's text colour. The
  border radius of the SearchBar container and of a rendered Card is the theme's
  roundness whenever the caller's \<open>style\<close> sets no \<open>borderRadius\<close> of its own.
\<close>

theorem theme_values_forwarded:
  "styleValue (in_style (sbv_input (SearchBar_render col th p))) ''color''
     = Some (SStr (c_text (th_colors th)))
   \<and> ((\<forall>s\<in>set (sb_style p). ''borderRadius'' \<notin> fst ` set s) \<longrightarrow>
        styleValue (sbv_paperStyle (SearchBar_render col th p)) ''borderRadius''
          = Some (SNum (th_roundness th)))
   \<and> (Card_render th cp = Inr v \<and> (\<forall>s\<in>set (cd_style cp). ''borderRadius'' \<notin> fst ` set s) \<longrightarrow>
        styleValue (cdv_paperStyle v) ''borderRadius'' = Some (SNum (th_roundness th)))"
proof (intro conjI impI)
  show "styleValue (in_style (sbv_input (SearchBar_render col th p))) ''color''
     = Some (SStr (c_text (th_colors th)))"
    by (simp add: SearchBar_render_def Let_def styleValue_def sb_styles_input_def)
next
  assume "\<forall>s\<in>set (sb_style p). ''borderRadius'' \<notin> fst ` set s"
  then show "styleValue (sbv_paperStyle (SearchBar_render col th p)) ''borderRadius''
          = Some (SNum (th_roundness th))"
    by (simp add: SearchBar_render_def Let_def styleValue_own sb_styles_container_def)
next
  assume a: "Card_render th cp = Inr v \<and> (\<forall>s\<in>set (cd_style cp). ''borderRadius'' \<notin> fst ` set s)"
  then have "cdv_paperStyle v =
      card_styles_card
        # [(''borderRadius'', SNum (th_roundness th)), (''elevation'', SAnimated ''elevation'')]
        # cd_style cp"
    by (auto simp: Card_render_def Let_def split: sum.splits)
  with a show "styleValue (cdv_paperStyle v) ''borderRadius'' = Some (SNum (th_roundness th))"
    by (simp add: styleValue_own card_styles_card_def)
qed

theorem theme_values_forwarded_witness:
  "styleValue (sbv_paperStyle (SearchBar_render plainColor sampleTheme
       \<lparr>sb_placeholder = None, sb_value = ''tea'', sb_icon = None,
        sb_onChangeText = ''setQuery'', sb_onIconPress = None,
        sb_style = [[(''margin'', SNum 0)]]\<rparr>)) ''borderRadius'' = Some (SNum 4)
   \<and> (\<exists>v. Card_render sampleTheme
          \<lparr>cd_elevation = 2, cd_children = Elem coverElement, cd_onPress = None,
           cd_style = [[(''margin'', SNum 0)]]\<rparr> = Inr v
        \<and> styleValue (cdv_paperStyle v) ''borderRadius'' = Some (SNum 4))"
proof -
  obtain v where v: "Card_render sampleTheme
          \<lparr>cd_elevation = 2, cd_children = Elem coverElement, cd_onPress = None,
           cd_style = [[(''margin'', SNum 0)]]\<rparr> = Inr v"
    by (simp add: Card_render_def Let_def Children_map_def Children_toList_def
        sum_map_Some_def)
  from theme_values_forwarded
    [of plainColor sampleTheme
        "\<lparr>sb_placeholder = None, sb_value = ''tea'', sb_icon = None,
          sb_onChangeText = ''setQuery'', sb_onIconPress = None,
          sb_style = [[(''margin'', SNum 0)]]\<rparr>"
        "\<lparr>cd_elevation = 2, cd_children = Elem coverElement, cd_onPress = None,
          cd_style = [[(''margin'', SNum 0)]]\<rparr>" v] v
  show ?thesis by (simp add: sampleTheme_def)
qed

text \<open>
  C1, as stated, fails. On a window 300 wide, a menu 200 wide opened from an anchor 40
  wide at \<open>x = 100\<close> does not pass the first horizontal test, is aligned with the right
  edge of the anchor and gets \<open>left = -60\<close>: it leaves the viewport on the left
  although it would fit inside the margins.
\<close>

theorem Menu_position_counterexample:
  "pos_left (Menu_position \<lparr>pf_os = IOS, pf_version = 11\<rparr> False
      (measuredMenu \<lparr>r_x = 100, r_y = 50, r_width = 40, r_height = 40\<rparr>
         \<lparr>l_width = 200, l_height = 100\<rparr> \<lparr>l_width = 300, l_height = 600\<rparr> 24)) = - 60
   \<and> \<not> SCREEN_INDENT \<le> - 60"
  by (simp add: Menu_position_def Menu_horizontal_def Menu_vertical_def measuredMenu_def
      SCREEN_INDENT_def Let_def binary64_numeral)

text \<open>
  C1, amended. Write \<open>fit\<close> for the bound \<open>windowWidth - menuWidth - SCREEN_INDENT\<close>
  as the first horizontal test computes it, \<open>left'\<close> and \<open>right\<close> for the left and
  right edge of a menu aligned with the anchor's right edge as the code computes them,
  and \<open>top'\<close> and \<open>bottom\<close> likewise for a menu aligned with the anchor's bottom.
  Horizontally: when the anchor's \<open>left\<close> is not negative and passes the first test,
  the final \<open>left\<close> is at least \<open>SCREEN_INDENT\<close>, and the menu ends at least
  \<open>SCREEN_INDENT\<close> before the right edge provided \<open>fit\<close> was computed exactly and
  \<open>left\<close> was at least \<open>SCREEN_INDENT\<close> or the window is at least two margins wider
  than the menu; when the test fails, \<open>right\<close> is inside the window and \<open>right\<close>
  and the two differences of the correction are computed exactly, the menu ends at
  least \<open>SCREEN_INDENT\<close> before the right edge. Vertically, for a menu whose halved
  height is positive: when the menu is aligned with the anchor's top (the
  \<open>translateY\<close> range starts at minus half the height) and \<open>top\<close> is not negative,
  the final \<open>top\<close> is at least \<open>SCREEN_INDENT\<close>; when it is aligned with the anchor's
  bottom, \<open>bottom\<close> is inside the window and \<open>bottom\<close> and the differences of the
  correction are computed exactly, the menu, with the status bar added, ends at least
  \<open>SCREEN_INDENT\<close> above the bottom edge. Which vertical alignment is taken is not
  part of the statement. Sums and differences of integers of magnitude below
  \<open>2 ^ 53\<close> are computed exactly (\<open>binary64_of_int\<close>).
\<close>

theorem Menu_position_margins:
  fixes m :: menu
  defines "ww \<equiv> l_width (mn_windowLayout m)" and "wh \<equiv> l_height (mn_windowLayout m)"
    and "mw \<equiv> l_width (mn_menuLayout m)" and "mh \<equiv> l_height (mn_menuLayout m)"
    and "aw \<equiv> l_width (mn_anchorLayout m)" and "ah \<equiv> l_height (mn_anchorLayout m)"
    and "fit \<equiv> binary64 (binary64 (l_width (mn_windowLayout m) - l_width (mn_menuLayout m))
                   - SCREEN_INDENT)"
    and "left' \<equiv> binary64 (mn_left m
                   + binary64 (l_width (mn_anchorLayout m) - l_width (mn_menuLayout m)))"
    and "top' \<equiv> binary64 (mn_top m
                   + binary64 (l_height (mn_anchorLayout m) - l_height (mn_menuLayout m)))"
  shows "(0 \<le> mn_left m \<and> mn_left m \<le> fit \<longrightarrow>
            SCREEN_INDENT \<le> pos_left (Menu_position pf rtl m)
          \<and> (fit = ww - mw - SCREEN_INDENT
               \<and> (SCREEN_INDENT \<le> mn_left m \<or> mw + 2 * SCREEN_INDENT \<le> ww) \<longrightarrow>
               pos_left (Menu_position pf rtl m) + mw \<le> ww - SCREEN_INDENT))
       \<and> (\<not> mn_left m \<le> fit
            \<and> binary64 (left' + mw) \<le> ww
            \<and> binary64 (left' + mw) = left' + mw
            \<and> binary64 (ww - SCREEN_INDENT) = ww - SCREEN_INDENT
            \<and> binary64 (ww - SCREEN_INDENT - mw) = ww - SCREEN_INDENT - mw \<longrightarrow>
            pos_left (Menu_position pf rtl m) + mw \<le> ww - SCREEN_INDENT)
       \<and> (0 < binary64 (mh / 2)
            \<and> pos_translateY (Menu_position pf rtl m) = (- binary64 (mh / 2), 0)
            \<and> 0 \<le> mn_top m \<longrightarrow>
            SCREEN_INDENT \<le> pos_top (Menu_position pf rtl m))
       \<and> (0 < binary64 (mh / 2)
            \<and> pos_translateY (Menu_position pf rtl m) = (binary64 (mh / 2), 0)
            \<and> binary64 (binary64 (top' + mh) + additionalVerticalValue pf m) \<le> wh
            \<and> binary64 (binary64 (top' + mh) + additionalVerticalValue pf m)
                = top' + mh + additionalVerticalValue pf m
            \<and> binary64 (wh - SCREEN_INDENT) = wh - SCREEN_INDENT
            \<and> binary64 (binary64 (wh - SCREEN_INDENT - mh) - additionalVerticalValue pf m)
                = wh - SCREEN_INDENT - mh - additionalVerticalValue pf m \<longrightarrow>
            pos_top (Menu_position pf rtl m) + mh + additionalVerticalValue pf m
              \<le> wh - SCREEN_INDENT)"
proof -
  have left: "pos_left (Menu_position pf rtl m) = snd (Menu_horizontal m)"
    and top: "pos_top (Menu_position pf rtl m) = snd (Menu_vertical pf m)"
    and ty: "pos_translateY (Menu_position pf rtl m) = fst (Menu_vertical pf m)"
    by (simp_all add: Menu_position_def split: prod.splits)
  have h1: "0 \<le> mn_left m \<and> mn_left m \<le> fit \<longrightarrow>
            SCREEN_INDENT \<le> snd (Menu_horizontal m)
          \<and> (fit = ww - mw - SCREEN_INDENT
               \<and> (SCREEN_INDENT \<le> mn_left m \<or> mw + 2 * SCREEN_INDENT \<le> ww) \<longrightarrow>
               snd (Menu_horizontal m) + mw \<le> ww - SCREEN_INDENT)"
    unfolding Menu_horizontal_def Let_def ww_def mw_def fit_def SCREEN_INDENT_def by auto
  have h2: "\<not> mn_left m \<le> fit
            \<and> binary64 (left' + mw) \<le> ww
            \<and> binary64 (left' + mw) = left' + mw
            \<and> binary64 (ww - SCREEN_INDENT) = ww - SCREEN_INDENT
            \<and> binary64 (ww - SCREEN_INDENT - mw) = ww - SCREEN_INDENT - mw \<longrightarrow>
            snd (Menu_horizontal m) + mw \<le> ww - SCREEN_INDENT"
    unfolding Menu_horizontal_def Let_def ww_def mw_def aw_def fit_def left'_def
      SCREEN_INDENT_def
    by auto
  have v1: "0 < binary64 (mh / 2) \<and> fst (Menu_vertical pf m) = (- binary64 (mh / 2), 0)
            \<and> 0 \<le> mn_top m \<longrightarrow>
            SCREEN_INDENT \<le> snd (Menu_vertical pf m)"
    unfolding Menu_vertical_def Let_def mh_def SCREEN_INDENT_def
    by (auto split: if_splits)
  have v2: "0 < binary64 (mh / 2) \<and> fst (Menu_vertical pf m) = (binary64 (mh / 2), 0)
            \<and> binary64 (binary64 (top' + mh) + additionalVerticalValue pf m) \<le> wh
            \<and> binary64 (binary64 (top' + mh) + additionalVerticalValue pf m)
                = top' + mh + additionalVerticalValue pf m
            \<and> binary64 (wh - SCREEN_INDENT) = wh - SCREEN_INDENT
            \<and> binary64 (binary64 (wh - SCREEN_INDENT - mh) - additionalVerticalValue pf m)
                = wh - SCREEN_INDENT - mh - additionalVerticalValue pf m \<longrightarrow>
            snd (Menu_vertical pf m) + mh + additionalVerticalValue pf m \<le> wh - SCREEN_INDENT"
    unfolding Menu_vertical_def Let_def mh_def ah_def wh_def top'_def SCREEN_INDENT_def
    by (auto split: if_splits)
  from h1 h2 v1 v2 show ?thesis unfolding left top ty by blast
qed

theorem Menu_position_margins_witness:
  "pos_left (Menu_position \<lparr>pf_os = Android, pf_version = 23\<rparr> False
      (measuredMenu \<lparr>r_x = 4, r_y = 2, r_width = 40, r_height = 40\<rparr>
         \<lparr>l_width = 200, l_height = 100\<rparr> \<lparr>l_width = 360, l_height = 640\<rparr> 24)) = 8
   \<and> pos_top (Menu_position \<lparr>pf_os = Android, pf_version = 23\<rparr> False
      (measuredMenu \<lparr>r_x = 4, r_y = 2, r_width = 40, r_height = 40\<rparr>
         \<lparr>l_width = 200, l_height = 100\<rparr> \<lparr>l_width = 360, l_height = 640\<rparr> 24)) = 8
   \<and> pos_left (Menu_position \<lparr>pf_os = Android, pf_version = 23\<rparr> False
      (measuredMenu \<lparr>r_x = 300, r_y = 560, r_width = 56, r_height = 50\<rparr>
         \<lparr>l_width = 200, l_height = 100\<rparr> \<lparr>l_width = 360, l_height = 640\<rparr> 24)) + 200
       \<le> 360 - SCREEN_INDENT
   \<and> pos_top (Menu_position \<lparr>pf_os = Android, pf_version = 23\<rparr> False
      (measuredMenu \<lparr>r_x = 300, r_y = 560, r_width = 56, r_height = 50\<rparr>
         \<lparr>l_width = 200, l_height = 100\<rparr> \<lparr>l_width = 360, l_height = 640\<rparr> 24)) + 100 + 24
       \<le> 640 - SCREEN_INDENT"
  using
    Menu_position_margins
      [of "measuredMenu \<lparr>r_x = 4, r_y = 2, r_width = 40, r_height = 40\<rparr>
             \<lparr>l_width = 200, l_height = 100\<rparr> \<lparr>l_width = 360, l_height = 640\<rparr> 24"
          "\<lparr>pf_os = Android, pf_version = 23\<rparr>" False]
    Menu_position_margins
      [of "measuredMenu \<lparr>r_x = 300, r_y = 560, r_width = 56, r_height = 50\<rparr>
             \<lparr>l_width = 200, l_height = 100\<rparr> \<lparr>l_width = 360, l_height = 640\<rparr> 24"
          "\<lparr>pf_os = Android, pf_version = 23\<rparr>" False]
  by (simp add: Menu_position_def Menu_horizontal_def Menu_vertical_def measuredMenu_def
      SCREEN_INDENT_def additionalVerticalValue_def Let_def binary64_numeral)

text \<open>
  The rounding decides the branch. With a window 510 wide, a menu \<open>252 + 3 / 2 ^ 45\<close>
  wide and an anchor of width 1 at \<open>x = 250 - 3 / 2 ^ 45\<close>, the anchor's \<open>left\<close> is
  not above the exact bound \<open>510 - menuWidth - 8\<close>, but the first difference is a tie
  that rounds down, the computed bound is \<open>250 - 4 / 2 ^ 45\<close>, the test fails and the
  menu is aligned with the anchor's right edge, at \<open>left = - 1 - 3 / 2 ^ 44\<close>.
\<close>

lemma Menu_horizontal_rounding_example:
  "snd (Menu_horizontal
      (measuredMenu \<lparr>r_x = 250 - 3 / 2 ^ 45, r_y = 50, r_width = 1, r_height = 40\<rparr>
         \<lparr>l_width = 252 + 3 / 2 ^ 45, l_height = 100\<rparr> \<lparr>l_width = 510, l_height = 800\<rparr> 24))
     = - 1 - 3 / 2 ^ 44
   \<and> 250 - 3 / 2 ^ 45 \<le> (510 - (252 + 3 / 2 ^ 45) - SCREEN_INDENT :: real)"
proof -
  have e1: "510 - (252 + 3 / 2 ^ 45) = (258 - 3 / 2 ^ 45 :: real)" by simp
  have "binary64 (258 - 3 / 2 ^ 45) = 258 - 1 / 2 ^ 43"
    by (subst binary64_normal [where L = 8])
       (simp_all add: round_even_def overflow_def power_int_minus Let_def)
  then have f1: "binary64 (510 - (252 + 3 / 2 ^ 45)) = 258 - 1 / 2 ^ 43"
    by (simp only: e1)
  have e2: "258 - 1 / 2 ^ 43 - 8 = (250 - 1 / 2 ^ 43 :: real)" by simp
  have "binary64 (250 - 1 / 2 ^ 43) = 250 - 1 / 2 ^ 43"
    by (subst binary64_normal [where L = 7])
       (simp_all add: round_even_def overflow_def power_int_minus Let_def)
  then have f2: "binary64 (258 - 1 / 2 ^ 43 - 8) = 250 - 1 / 2 ^ 43"
    by (simp only: e2)
  have e3: "1 - (252 + 3 / 2 ^ 45) = (- 251 - 3 / 2 ^ 45 :: real)" by simp
  have "binary64 (- 251 - 3 / 2 ^ 45) = - 251 - 3 / 2 ^ 45"
    by (subst binary64_normal [where L = 7])
       (simp_all add: round_even_def overflow_def power_int_minus Let_def)
  then have g1: "binary64 (1 - (252 + 3 / 2 ^ 45)) = - 251 - 3 / 2 ^ 45"
    by (simp only: e3)
  have e4: "250 - 3 / 2 ^ 45 + (- 251 - 3 / 2 ^ 45) = (- 1 - 3 / 2 ^ 44 :: real)" by simp
  have "binary64 (- 1 - 3 / 2 ^ 44) = - 1 - 3 / 2 ^ 44"
    by (subst binary64_normal [where L = 0])
       (simp_all add: round_even_def overflow_def power_int_minus Let_def)
  then have g2: "binary64 (250 - 3 / 2 ^ 45 + (- 251 - 3 / 2 ^ 45)) = - 1 - 3 / 2 ^ 44"
    by (simp only: e4)
  have e5: "- 1 - 3 / 2 ^ 44 + (252 + 3 / 2 ^ 45) = (251 - 3 / 2 ^ 45 :: real)" by simp
  have "binary64 (251 - 3 / 2 ^ 45) = 251 - 3 / 2 ^ 45"
    by (subst binary64_normal [where L = 7])
       (simp_all add: round_even_def overflow_def power_int_minus Let_def)
  then have g3: "binary64 (- 1 - 3 / 2 ^ 44 + (252 + 3 / 2 ^ 45)) = 251 - 3 / 2 ^ 45"
    by (simp only: e5)
  have g4: "binary64 (510 - 8) = 502"
    by (simp add: binary64_numeral)
  have "snd (Menu_horizontal
      (measuredMenu \<lparr>r_x = 250 - 3 / 2 ^ 45, r_y = 50, r_width = 1, r_height = 40\<rparr>
         \<lparr>l_width = 252 + 3 / 2 ^ 45, l_height = 100\<rparr> \<lparr>l_width = 510, l_height = 800\<rparr> 24))
     = - 1 - 3 / 2 ^ 44"
    unfolding Menu_horizontal_def measuredMenu_def Let_def SCREEN_INDENT_def
    apply (simp only: menu.simps layout.simps layoutRectangle.simps)
    apply (simp only: f1 f2 g1 g2 g3 g4)
    apply simp
    done
  moreover have "250 - 3 / 2 ^ 45 \<le> (510 - (252 + 3 / 2 ^ 45) - SCREEN_INDENT :: real)"
    by (simp add: SCREEN_INDENT_def)
  ultimately show ?thesis by simp
qed

subsection \<open>Listeners\<close>

lemma Modal_hideModal_removes_listener: "HandleBack \<notin> md_backPress (Modal_hideModal m)"
  by (simp add: Modal_hideModal_def)

lemma Modal_showModal_adds_listener: "HandleBack \<in> md_backPress (Modal_showModal m)"
  by (simp add: Modal_showModal_def)

lemma Menu_hide_removes_listeners:
  "HandleDismiss \<notin> mn_backPress (Menu_hide m) \<and> HandleDismiss \<notin> mn_dimChange (Menu_hide m)"
  by (simp add: Menu_hide_def)

lemma Menu_unmount_removes_listeners:
  "HandleDismiss \<notin> mn_backPress (Menu_componentWillUnmount m)
   \<and> HandleDismiss \<notin> mn_dimChange (Menu_componentWillUnmount m)"
  by (simp add: Menu_componentWillUnmount_def)

text \<open>
  C2. The claim asks that no listener of the component remains after an unmount. Menu
  removes both of its listeners in \<open>componentWillUnmount\<close>
  (\<open>Menu_unmount_removes_listeners\<close>), but Modal has no such method: a Modal that is
  shown and then unmounted leaves \<open>_handleBack\<close> registered for \<open>hardwareBackPress\<close>.
\<close>

theorem Modal_unmount_keeps_back_listener:
  "HandleBack \<in> md_backPress
      (Modal_run (Modal_constructor True False (Some ''close'') {}) [MdSetVisible True, MdUnmount])
   \<and> \<not> md_mounted
      (Modal_run (Modal_constructor True False (Some ''close'') {}) [MdSetVisible True, MdUnmount])"
  by (simp add: Modal_run_def Modal_constructor_def Modal_componentWillReceiveProps_def
      Modal_componentDidUpdate_def Modal_showModal_def Let_def)

subsection \<open>Animations\<close>

text \<open>
  C3, as stated, fails for Menu: when the prop turns true while the menu's view still
  measures as empty, \<open>_show\<close> starts no animation; it takes its back-press listener off
  again and schedules itself after \<open>ANIMATION_DURATION\<close>.
\<close>

theorem Menu_show_unmeasured_counterexample:
  "mn_animations (Menu_componentDidUpdate False
      \<lparr>ms_window = \<lparr>l_width = 360, l_height = 640\<rparr>,
       ms_menu = Some \<lparr>r_x = 0, r_y = 0, r_width = 0, r_height = 0\<rparr>,
       ms_anchor = Some \<lparr>r_x = 16, r_y = 80, r_width = 40, r_height = 40\<rparr>\<rparr>
      (Menu_initial True 24 ''onDismiss'' {} {})) = []
   \<and> mn_showTimeouts (Menu_componentDidUpdate False
      \<lparr>ms_window = \<lparr>l_width = 360, l_height = 640\<rparr>,
       ms_menu = Some \<lparr>r_x = 0, r_y = 0, r_width = 0, r_height = 0\<rparr>,
       ms_anchor = Some \<lparr>r_x = 16, r_y = 80, r_width = 40, r_height = 40\<rparr>\<rparr>
      (Menu_initial True 24 ''onDismiss'' {} {})) = [250]"
  by (simp add: Menu_componentDidUpdate_def Menu_updateVisibility_def Menu_show_def
      Menu_initial_def ANIMATION_DURATION_def Let_def)

text \<open>
  C3, amended. A change of Modal's \<open>visible\<close> prop starts a timing animation of the
  opacity, to 1 when the prop turned true and to 0 when it turned false. A change of
  Menu's prop to false starts a timing animation of the opacity to 0. A change of Menu's
  prop to true starts the timing animation of the opacity to 1, together with the scale
  animation, when the window, the menu and the anchor all measure with a width and a
  height that are not zero; when one of them is zero it starts no animation and
  schedules \<open>_show\<close> again after \<open>ANIMATION_DURATION\<close>.
\<close>

theorem visible_transition_animations:
  "(prev \<noteq> md_visible md \<longrightarrow>
      md_animations (Modal_componentDidUpdate prev md) = md_animations md @
        [Single \<lparr>an_value = ''opacity'',
                 an_toValue = Scalar (if md_visible md then 1 else 0), an_duration = 280\<rparr>])
   \<and> (prev' \<noteq> mn_visible mn \<and> \<not> mn_visible mn \<longrightarrow>
      mn_animations (Menu_componentDidUpdate prev' ms mn) = mn_animations mn @
        [Single \<lparr>an_value = ''opacityAnimation'', an_toValue = Scalar 0,
                 an_duration = ANIMATION_DURATION\<rparr>])
   \<and> (prev' \<noteq> mn_visible mn \<and> mn_visible mn
        \<and> ms_menu ms = Some ml \<and> ms_anchor ms = Some al
        \<and> l_width (ms_window ms) \<noteq> 0 \<and> l_height (ms_window ms) \<noteq> 0
        \<and> r_width ml \<noteq> 0 \<and> r_height ml \<noteq> 0 \<and> r_width al \<noteq> 0 \<and> r_height al \<noteq> 0 \<longrightarrow>
      mn_animations (Menu_componentDidUpdate prev' ms mn) = mn_animations mn @
        [Parallel
          [\<lparr>an_value = ''scaleAnimation'', an_toValue = XY (r_width ml) (r_height ml),
            an_duration = ANIMATION_DURATION\<rparr>,
           \<lparr>an_value = ''opacityAnimation'', an_toValue = Scalar 1,
            an_duration = ANIMATION_DURATION\<rparr>]])
   \<and> (prev' \<noteq> mn_visible mn \<and> mn_visible mn
        \<and> ms_menu ms = Some ml \<and> ms_anchor ms = Some al
        \<and> (l_width (ms_window ms) = 0 \<or> l_height (ms_window ms) = 0
            \<or> r_width ml = 0 \<or> r_height ml = 0 \<or> r_width al = 0 \<or> r_height al = 0) \<longrightarrow>
      mn_animations (Menu_componentDidUpdate prev' ms mn) = mn_animations mn
      \<and> mn_showTimeouts (Menu_componentDidUpdate prev' ms mn)
          = mn_showTimeouts mn @ [ANIMATION_DURATION])"
proof (intro conjI impI)
  assume "prev \<noteq> md_visible md"
  then show "md_animations (Modal_componentDidUpdate prev md) = md_animations md @
        [Single \<lparr>an_value = ''opacity'',
                 an_toValue = Scalar (if md_visible md then 1 else 0), an_duration = 280\<rparr>]"
    by (simp add: Modal_componentDidUpdate_def Modal_showModal_def Modal_hideModal_def)
next
  assume "prev' \<noteq> mn_visible mn \<and> \<not> mn_visible mn"
  then show "mn_animations (Menu_componentDidUpdate prev' ms mn) = mn_animations mn @
        [Single \<lparr>an_value = ''opacityAnimation'', an_toValue = Scalar 0,
                 an_duration = ANIMATION_DURATION\<rparr>]"
    by (simp add: Menu_componentDidUpdate_def Menu_updateVisibility_def Menu_hide_def)
next
  assume "prev' \<noteq> mn_visible mn \<and> mn_visible mn
        \<and> ms_menu ms = Some ml \<and> ms_anchor ms = Some al
        \<and> l_width (ms_window ms) \<noteq> 0 \<and> l_height (ms_window ms) \<noteq> 0
        \<and> r_width ml \<noteq> 0 \<and> r_height ml \<noteq> 0 \<and> r_width al \<noteq> 0 \<and> r_height al \<noteq> 0"
  then show "mn_animations (Menu_componentDidUpdate prev' ms mn) = mn_animations mn @
        [Parallel
          [\<lparr>an_value = ''scaleAnimation'', an_toValue = XY (r_width ml) (r_height ml),
            an_duration = ANIMATION_DURATION\<rparr>,
           \<lparr>an_value = ''opacityAnimation'', an_toValue = Scalar 1,
            an_duration = ANIMATION_DURATION\<rparr>]]"
    by (simp add: Menu_componentDidUpdate_def Menu_updateVisibility_def Menu_show_def Let_def)
next
  assume a: "prev' \<noteq> mn_visible mn \<and> mn_visible mn
        \<and> ms_menu ms = Some ml \<and> ms_anchor ms = Some al
        \<and> (l_width (ms_window ms) = 0 \<or> l_height (ms_window ms) = 0
            \<or> r_width ml = 0 \<or> r_height ml = 0 \<or> r_width al = 0 \<or> r_height al = 0)"
  then show "mn_animations (Menu_componentDidUpdate prev' ms mn) = mn_animations mn"
    by (auto simp: Menu_componentDidUpdate_def Menu_updateVisibility_def Menu_show_def Let_def)
  from a show "mn_showTimeouts (Menu_componentDidUpdate prev' ms mn)
          = mn_showTimeouts mn @ [ANIMATION_DURATION]"
    by (auto simp: Menu_componentDidUpdate_def Menu_updateVisibility_def Menu_show_def Let_def)
qed

theorem visible_transition_animations_witness:
  "md_animations (Modal_componentDidUpdate False
       ((Modal_constructor True False None {})\<lparr>md_visible := True\<rparr>))
     = [Single \<lparr>an_value = ''opacity'', an_toValue = Scalar 1, an_duration = 280\<rparr>]
   \<and> mn_animations (Menu_componentDidUpdate True
       \<lparr>ms_window = \<lparr>l_width = 360, l_height = 640\<rparr>, ms_menu = None, ms_anchor = None\<rparr>
       (Menu_initial False 24 ''onDismiss'' {} {}))
     = [Single \<lparr>an_value = ''opacityAnimation'', an_toValue = Scalar 0, an_duration = 250\<rparr>]
   \<and> mn_animations (Menu_componentDidUpdate False
       \<lparr>ms_window = \<lparr>l_width = 360, l_height = 640\<rparr>,
        ms_menu = Some \<lparr>r_x = 0, r_y = 0, r_width = 200, r_height = 100\<rparr>,
        ms_anchor = Some \<lparr>r_x = 16, r_y = 80, r_width = 40, r_height = 40\<rparr>\<rparr>
       (Menu_initial True 24 ''onDismiss'' {} {}))
     = [Parallel
         [\<lparr>an_value = ''scaleAnimation'', an_toValue = XY 200 100, an_duration = 250\<rparr>,
          \<lparr>an_value = ''opacityAnimation'', an_toValue = Scalar 1, an_duration = 250\<rparr>]]"
  using
    visible_transition_animations
      [of False "(Modal_constructor True False None {})\<lparr>md_visible := True\<rparr>"
          True "Menu_initial False 24 ''onDismiss'' {} {}"
          "\<lparr>ms_window = \<lparr>l_width = 360, l_height = 640\<rparr>, ms_menu = None, ms_anchor = None\<rparr>"]
    visible_transition_animations
      [of False "(Modal_constructor True False None {})\<lparr>md_visible := True\<rparr>"
          False "Menu_initial True 24 ''onDismiss'' {} {}"
          "\<lparr>ms_window = \<lparr>l_width = 360, l_height = 640\<rparr>,
            ms_menu = Some \<lparr>r_x = 0, r_y = 0, r_width = 200, r_height = 100\<rparr>,
            ms_anchor = Some \<lparr>r_x = 16, r_y = 80, r_width = 40, r_height = 40\<rparr>\<rparr>"
          "\<lparr>r_x = 0, r_y = 0, r_width = 200, r_height = 100\<rparr>"
          "\<lparr>r_x = 16, r_y = 80, r_width = 40, r_height = 40\<rparr>"]
  by (simp add: Modal_constructor_def Menu_initial_def ANIMATION_DURATION_def)

subsection \<open>The auto-dismiss timer\<close>

lemma Snackbar_show_onEnd_schedules:
  "sn_duration s = Ms d \<Longrightarrow>
     sn_timers (Snackbar_show_onEnd s) = sn_timers s @ [(sn_nextTimer s, sn_onDismiss s, d)]
   \<and> sn_hideTimeout (Snackbar_show_onEnd s) = Some (sn_nextTimer s)"
  by (simp add: Snackbar_show_onEnd_def DURATION_INDEFINITE_def)

lemma Snackbar_show_onEnd_indefinite:
  "sn_duration s = DURATION_INDEFINITE \<Longrightarrow> Snackbar_show_onEnd s = s"
  by (simp add: Snackbar_show_onEnd_def)

lemma Snackbar_hide_cancels_stored:
  "sn_hideTimeout s = Some i \<Longrightarrow>
     i \<notin> fst ` set (sn_timers (Snackbar_hide s))
   \<and> i \<notin> fst ` set (sn_timers (Snackbar_componentWillUnmount s))"
  by (auto simp: Snackbar_hide_def Snackbar_componentWillUnmount_def clearTimeout_def)

text \<open>
  C6. The claim asks that a hide leaves no auto-dismiss timer pending. The completion
  callback of \<open>_show\<close> schedules the timer without looking at whether the animation
  finished, and \<open>_hide\<close> clears only the timer stored last. When \<open>visible\<close> turns
  false while the show animation runs, the callback comes after the \<open>clearTimeout\<close> of
  \<open>_hide\<close>: the timer it schedules is pending on a hidden Snackbar and fires
  \<open>onDismiss\<close>; and after a second show has stored its own timer, a second hide leaves
  the first one pending.
\<close>

theorem Snackbar_timer_survives_hide:
  "sn_timers (Snackbar_run (Snackbar_initial False DURATION_LONG ''onDismiss'')
      [SnMount, SnSetVisible True, SnSetVisible False, SnShowEnd]) = [(0, ''onDismiss'', 3500)]
   \<and> \<not> sn_visible (Snackbar_run (Snackbar_initial False DURATION_LONG ''onDismiss'')
      [SnMount, SnSetVisible True, SnSetVisible False, SnShowEnd])
   \<and> sn_calls (Snackbar_run (Snackbar_initial False DURATION_LONG ''onDismiss'')
      [SnMount, SnSetVisible True, SnSetVisible False, SnShowEnd, SnTimerFires 0])
       = [Call ''onDismiss'' []]
   \<and> sn_timers (Snackbar_run (Snackbar_initial False DURATION_LONG ''onDismiss'')
      [SnMount, SnSetVisible True, SnSetVisible False, SnShowEnd,
       SnSetVisible True, SnShowEnd, SnSetVisible False]) = [(0, ''onDismiss'', 3500)]"
  by (simp add: Snackbar_run_def Snackbar_initial_def Snackbar_componentDidMount_def
      Snackbar_componentDidUpdate_def Snackbar_show_def Snackbar_hide_def
      Snackbar_show_onEnd_def clearTimeout_def DURATION_LONG_def DURATION_INDEFINITE_def
      Let_def)

end
